theory Spec2Isabelle
  imports Main "HOL-Library.Word"
begin

section \<open>The SDE HDMI display interface (sde\_hdmi.h)\<close>

text \<open>
  The header declares three structures and twelve entry points. With the
  configuration symbol \<open>CONFIG_DRM_SDE_HDMI\<close> set, the entry points are external
  functions; with the symbol unset, each of them is a static inline function whose body
  is a single return statement. The model follows that shape: the structures are
  records, the enumerations are datatypes, a kernel routine is a function from the
  memory before the call to its result and the memory after it, and every entry point
  selects between the external function and the inline body by the configuration.
\<close>

subsection \<open>Machine types\<close>

text \<open>
  \<open>u32\<close> is an unsigned 32-bit word. A C \<open>int\<close> is a 32-bit word read as a signed
  number by \<open>sint\<close>. A pointer is an address, \<open>NULL\<close> being address 0. A
  \<open>const char *\<close> is a string, or \<open>None\<close> for the null pointer.
\<close>

type_synonym u32 = "32 word"
type_synonym c_int = "32 word"
type_synonym addr = nat
type_synonym c_string = "string option"

definition NULL :: addr where
  "NULL = 0"

subsection \<open>Enumerations of the DRM core\<close>

text \<open>
  Modelled from the spec: \<open>enum drm_connector_status\<close> is declared by the DRM core
  header \<open>drm/drm_crtc.h\<close>, which is not among the sources; the header at hand only
  names its enumerator \<open>connector_status_disconnected\<close>, the "fixed enum value" of the
  disabled-feature path. The other two enumerators are those of the DRM core.
\<close>

datatype drm_connector_status =
    connector_status_connected
  | connector_status_disconnected
  | connector_status_unknown

text \<open>
  Modelled from the spec: \<open>enum drm_mode_status\<close> is declared by the DRM core header
  \<open>drm/drm_modes.h\<close>, which is not among the sources; the header at hand only names its
  enumerator \<open>MODE_OK\<close>. The other enumerators are those of the DRM core, every one of
  them a reason for rejecting a mode.
\<close>

datatype drm_mode_status =
    MODE_OK
  | MODE_HSYNC
  | MODE_VSYNC
  | MODE_H_ILLEGAL
  | MODE_V_ILLEGAL
  | MODE_BAD_WIDTH
  | MODE_NOMODE
  | MODE_NO_INTERLACE
  | MODE_NO_DBLESCAN
  | MODE_NO_VSCAN
  | MODE_MEM
  | MODE_VIRTUAL_X
  | MODE_VIRTUAL_Y
  | MODE_MEM_VIRT
  | MODE_NOCLOCK
  | MODE_CLOCK_HIGH
  | MODE_CLOCK_LOW
  | MODE_CLOCK_RANGE
  | MODE_BAD_HVALUE
  | MODE_BAD_VVALUE
  | MODE_BAD_VSCAN
  | MODE_HSYNC_NARROW
  | MODE_HSYNC_WIDE
  | MODE_HBLANK_NARROW
  | MODE_HBLANK_WIDE
  | MODE_VSYNC_NARROW
  | MODE_VSYNC_WIDE
  | MODE_VBLANK_NARROW
  | MODE_VBLANK_WIDE
  | MODE_PANEL
  | MODE_INTERLACE_WIDTH
  | MODE_ONE_WIDTH
  | MODE_ONE_HEIGHT
  | MODE_ONE_SIZE
  | MODE_NO_REDUCED
  | MODE_NO_STEREO
  | MODE_UNVERIFIED
  | MODE_BAD
  | MODE_ERROR

subsection \<open>Structures\<close>

text \<open>\<open>struct sde_hdmi_info\<close>: the properties of an HDMI display.\<close>

record sde_hdmi_info =
  display_type :: c_string
  is_hot_pluggable :: bool
  is_connected :: bool
  is_edid_supported :: bool
  width_mm :: u32
  height_mm :: u32

text \<open>
  \<open>struct sde_hdmi_ctrl\<close>: the controller of a display. \<open>ctrl\<close> points to a
  \<open>struct hdmi\<close> and \<open>ctrl_of_node\<close> to a \<open>struct device_node\<close>.
\<close>

record sde_hdmi_ctrl =
  ctrl :: addr
  ctrl_of_node :: addr
  hdmi_ctrl_idx :: u32

text \<open>
  The kernel structures that \<open>struct sde_hdmi\<close> embeds by value
  (\<open>struct list_head\<close>, \<open>struct mutex\<close>, \<open>struct work_struct\<close>) are declared by
  kernel headers outside the sources. Each is a type of its own, distinct from every
  structure of this header, and its content is a type parameter.
\<close>

datatype 'l list_head = List_head 'l

datatype 'x mutex = Mutex 'x

datatype 'w work_struct = Work_struct 'w

text \<open>
  \<open>struct sde_hdmi\<close>: one HDMI display. \<open>pdev\<close>, \<open>drm_dev\<close> and \<open>root\<close> are
  pointers; \<open>ctrl\<close> is a \<open>struct sde_hdmi_ctrl\<close> held by value.
\<close>

record ('l, 'x, 'w) sde_hdmi =
  pdev :: addr
  drm_dev :: addr
  name :: c_string
  display_type :: c_string
  list :: "'l list_head"
  display_lock :: "'x mutex"
  ctrl :: sde_hdmi_ctrl
  non_pluggable :: bool
  num_of_modes :: u32
  mode_list :: "'l list_head"
  connected :: bool
  is_tpg_enabled :: bool
  hpd_work :: "'w work_struct"
  root :: addr

subsection \<open>Kernel memory\<close>

text \<open>
  What the pointer arguments of the entry points can reach: the \<open>struct sde_hdmi\<close>
  objects, the arrays of \<open>void *\<close> that a \<open>void **\<close> points to, and the objects of
  the structures declared elsewhere (\<open>struct drm_connector\<close>,
  \<open>struct drm_display_mode\<close>, \<open>struct drm_encoder\<close>, \<open>struct msm_display_info\<close>),
  whose type is the parameter \<open>'k\<close>.
\<close>

record ('l, 'x, 'w, 'k) kmem =
  hdmi_objs :: "addr \<rightharpoonup> ('l, 'x, 'w) sde_hdmi"
  ptr_arrays :: "addr \<rightharpoonup> addr list"
  kobjs :: "addr \<rightharpoonup> 'k"

subsection \<open>The two configurations\<close>

record config =
  CONFIG_DRM_SDE_HDMI :: bool

text \<open>
  The external functions behind the prototypes of the enabled branch. Their bodies are
  in the driver's implementation file, so they are a parameter of the model: one
  routine for each prototype, over a memory of any type \<open>'m\<close>.
\<close>

record 'm sde_hdmi_ext =
  ext_get_num_of_displays :: "'m \<Rightarrow> u32 \<times> 'm"
  ext_get_displays :: "addr \<Rightarrow> u32 \<Rightarrow> 'm \<Rightarrow> c_int \<times> 'm"
  ext_connector_pre_deinit :: "addr \<Rightarrow> addr \<Rightarrow> 'm \<Rightarrow> c_int \<times> 'm"
  ext_connector_post_init :: "addr \<Rightarrow> addr \<Rightarrow> addr \<Rightarrow> 'm \<Rightarrow> c_int \<times> 'm"
  ext_connector_detect :: "addr \<Rightarrow> bool \<Rightarrow> addr \<Rightarrow> 'm \<Rightarrow> drm_connector_status \<times> 'm"
  ext_connector_get_modes :: "addr \<Rightarrow> addr \<Rightarrow> 'm \<Rightarrow> c_int \<times> 'm"
  ext_mode_valid :: "addr \<Rightarrow> addr \<Rightarrow> addr \<Rightarrow> 'm \<Rightarrow> drm_mode_status \<times> 'm"
  ext_dev_init :: "addr \<Rightarrow> 'm \<Rightarrow> c_int \<times> 'm"
  ext_dev_deinit :: "addr \<Rightarrow> 'm \<Rightarrow> c_int \<times> 'm"
  ext_drm_init :: "addr \<Rightarrow> addr \<Rightarrow> 'm \<Rightarrow> c_int \<times> 'm"
  ext_drm_deinit :: "addr \<Rightarrow> 'm \<Rightarrow> c_int \<times> 'm"
  ext_get_info :: "addr \<Rightarrow> addr \<Rightarrow> 'm \<Rightarrow> c_int \<times> 'm"

subsection \<open>The entry points\<close>

text \<open>
  Each entry point takes the configuration, the external functions, the arguments of
  the C function in their order, and the memory. In the \<open>else\<close> branch is the body of
  the static inline function: it returns a constant and touches no memory.
\<close>

definition sde_hdmi_get_num_of_displays ::
  "config \<Rightarrow> 'm sde_hdmi_ext \<Rightarrow> 'm \<Rightarrow> u32 \<times> 'm" where
  "sde_hdmi_get_num_of_displays cfg ext m =
     (if CONFIG_DRM_SDE_HDMI cfg then ext_get_num_of_displays ext m
      else (0, m))"

definition sde_hdmi_get_displays ::
  "config \<Rightarrow> 'm sde_hdmi_ext \<Rightarrow> addr \<Rightarrow> u32 \<Rightarrow> 'm \<Rightarrow> c_int \<times> 'm" where
  "sde_hdmi_get_displays cfg ext display_array max_display_count m =
     (if CONFIG_DRM_SDE_HDMI cfg
      then ext_get_displays ext display_array max_display_count m
      else (0, m))"

definition sde_hdmi_connector_pre_deinit ::
  "config \<Rightarrow> 'm sde_hdmi_ext \<Rightarrow> addr \<Rightarrow> addr \<Rightarrow> 'm \<Rightarrow> c_int \<times> 'm" where
  "sde_hdmi_connector_pre_deinit cfg ext connector display m =
     (if CONFIG_DRM_SDE_HDMI cfg
      then ext_connector_pre_deinit ext connector display m
      else (0, m))"

definition sde_hdmi_connector_post_init ::
  "config \<Rightarrow> 'm sde_hdmi_ext \<Rightarrow> addr \<Rightarrow> addr \<Rightarrow> addr \<Rightarrow> 'm \<Rightarrow> c_int \<times> 'm" where
  "sde_hdmi_connector_post_init cfg ext connector info display m =
     (if CONFIG_DRM_SDE_HDMI cfg
      then ext_connector_post_init ext connector info display m
      else (0, m))"

definition sde_hdmi_connector_detect ::
  "config \<Rightarrow> 'm sde_hdmi_ext \<Rightarrow> addr \<Rightarrow> bool \<Rightarrow> addr \<Rightarrow> 'm
     \<Rightarrow> drm_connector_status \<times> 'm" where
  "sde_hdmi_connector_detect cfg ext connector force display m =
     (if CONFIG_DRM_SDE_HDMI cfg
      then ext_connector_detect ext connector force display m
      else (connector_status_disconnected, m))"

definition sde_hdmi_connector_get_modes ::
  "config \<Rightarrow> 'm sde_hdmi_ext \<Rightarrow> addr \<Rightarrow> addr \<Rightarrow> 'm \<Rightarrow> c_int \<times> 'm" where
  "sde_hdmi_connector_get_modes cfg ext connector display m =
     (if CONFIG_DRM_SDE_HDMI cfg
      then ext_connector_get_modes ext connector display m
      else (0, m))"

definition sde_hdmi_mode_valid ::
  "config \<Rightarrow> 'm sde_hdmi_ext \<Rightarrow> addr \<Rightarrow> addr \<Rightarrow> addr \<Rightarrow> 'm
     \<Rightarrow> drm_mode_status \<times> 'm" where
  "sde_hdmi_mode_valid cfg ext connector mode display m =
     (if CONFIG_DRM_SDE_HDMI cfg
      then ext_mode_valid ext connector mode display m
      else (MODE_OK, m))"

definition sde_hdmi_dev_init ::
  "config \<Rightarrow> 'm sde_hdmi_ext \<Rightarrow> addr \<Rightarrow> 'm \<Rightarrow> c_int \<times> 'm" where
  "sde_hdmi_dev_init cfg ext display m =
     (if CONFIG_DRM_SDE_HDMI cfg then ext_dev_init ext display m
      else (0, m))"

definition sde_hdmi_dev_deinit ::
  "config \<Rightarrow> 'm sde_hdmi_ext \<Rightarrow> addr \<Rightarrow> 'm \<Rightarrow> c_int \<times> 'm" where
  "sde_hdmi_dev_deinit cfg ext display m =
     (if CONFIG_DRM_SDE_HDMI cfg then ext_dev_deinit ext display m
      else (0, m))"

definition sde_hdmi_drm_init ::
  "config \<Rightarrow> 'm sde_hdmi_ext \<Rightarrow> addr \<Rightarrow> addr \<Rightarrow> 'm \<Rightarrow> c_int \<times> 'm" where
  "sde_hdmi_drm_init cfg ext display enc m =
     (if CONFIG_DRM_SDE_HDMI cfg then ext_drm_init ext display enc m
      else (0, m))"

definition sde_hdmi_drm_deinit ::
  "config \<Rightarrow> 'm sde_hdmi_ext \<Rightarrow> addr \<Rightarrow> 'm \<Rightarrow> c_int \<times> 'm" where
  "sde_hdmi_drm_deinit cfg ext display m =
     (if CONFIG_DRM_SDE_HDMI cfg then ext_drm_deinit ext display m
      else (0, m))"

definition sde_hdmi_get_info ::
  "config \<Rightarrow> 'm sde_hdmi_ext \<Rightarrow> addr \<Rightarrow> addr \<Rightarrow> 'm \<Rightarrow> c_int \<times> 'm" where
  "sde_hdmi_get_info cfg ext info display m =
     (if CONFIG_DRM_SDE_HDMI cfg then ext_get_info ext info display m
      else (0, m))"

lemmas entry_point_defs =
  sde_hdmi_get_num_of_displays_def sde_hdmi_get_displays_def
  sde_hdmi_connector_pre_deinit_def sde_hdmi_connector_post_init_def
  sde_hdmi_connector_detect_def sde_hdmi_connector_get_modes_def
  sde_hdmi_mode_valid_def sde_hdmi_dev_init_def sde_hdmi_dev_deinit_def
  sde_hdmi_drm_init_def sde_hdmi_drm_deinit_def sde_hdmi_get_info_def

subsection \<open>The declarations of the two branches\<close>

text \<open>
  The declarations of the header as data, for comparing the two branches of the
  conditional: the type of a parameter or of a result, the storage class of a
  declaration, and a declaration with its result type, its name and its parameters in
  order (type and name). \<open>(void)\<close> is the empty parameter list.
  \<open>TPtr (TConst TChar)\<close> is \<open>const char *\<close>.
\<close>

datatype ctype =
    TVoid
  | TChar
  | TInt
  | TU32
  | TBool
  | TEnum string
  | TStruct string
  | TPtr ctype
  | TConst ctype

datatype storage = Extern | Static_inline

record prototype =
  storage_class :: storage
  ret_type :: ctype
  fn_name :: string
  params :: "(ctype \<times> string) list"

text \<open>The prototypes under \<open>#ifdef CONFIG_DRM_SDE_HDMI\<close>, in the order of the header.\<close>

definition enabled_prototypes :: "prototype list" where
  "enabled_prototypes =
    [\<lparr>storage_class = Extern, ret_type = TU32,
        fn_name = ''sde_hdmi_get_num_of_displays'', params = []\<rparr>,
     \<lparr>storage_class = Extern, ret_type = TInt,
        fn_name = ''sde_hdmi_get_displays'',
        params = [(TPtr (TPtr TVoid), ''display_array''), (TU32, ''max_display_count'')]\<rparr>,
     \<lparr>storage_class = Extern, ret_type = TInt,
        fn_name = ''sde_hdmi_connector_pre_deinit'',
        params = [(TPtr (TStruct ''drm_connector''), ''connector''),
                  (TPtr TVoid, ''display'')]\<rparr>,
     \<lparr>storage_class = Extern, ret_type = TInt,
        fn_name = ''sde_hdmi_connector_post_init'',
        params = [(TPtr (TStruct ''drm_connector''), ''connector''),
                  (TPtr TVoid, ''info''), (TPtr TVoid, ''display'')]\<rparr>,
     \<lparr>storage_class = Extern, ret_type = TEnum ''drm_connector_status'',
        fn_name = ''sde_hdmi_connector_detect'',
        params = [(TPtr (TStruct ''drm_connector''), ''connector''),
                  (TBool, ''force''), (TPtr TVoid, ''display'')]\<rparr>,
     \<lparr>storage_class = Extern, ret_type = TInt,
        fn_name = ''sde_hdmi_connector_get_modes'',
        params = [(TPtr (TStruct ''drm_connector''), ''connector''),
                  (TPtr TVoid, ''display'')]\<rparr>,
     \<lparr>storage_class = Extern, ret_type = TEnum ''drm_mode_status'',
        fn_name = ''sde_hdmi_mode_valid'',
        params = [(TPtr (TStruct ''drm_connector''), ''connector''),
                  (TPtr (TStruct ''drm_display_mode''), ''mode''),
                  (TPtr TVoid, ''display'')]\<rparr>,
     \<lparr>storage_class = Extern, ret_type = TInt,
        fn_name = ''sde_hdmi_dev_init'',
        params = [(TPtr (TStruct ''sde_hdmi''), ''display'')]\<rparr>,
     \<lparr>storage_class = Extern, ret_type = TInt,
        fn_name = ''sde_hdmi_dev_deinit'',
        params = [(TPtr (TStruct ''sde_hdmi''), ''display'')]\<rparr>,
     \<lparr>storage_class = Extern, ret_type = TInt,
        fn_name = ''sde_hdmi_drm_init'',
        params = [(TPtr (TStruct ''sde_hdmi''), ''display''),
                  (TPtr (TStruct ''drm_encoder''), ''enc'')]\<rparr>,
     \<lparr>storage_class = Extern, ret_type = TInt,
        fn_name = ''sde_hdmi_drm_deinit'',
        params = [(TPtr (TStruct ''sde_hdmi''), ''display'')]\<rparr>,
     \<lparr>storage_class = Extern, ret_type = TInt,
        fn_name = ''sde_hdmi_get_info'',
        params = [(TPtr (TStruct ''msm_display_info''), ''info''),
                  (TPtr TVoid, ''display'')]\<rparr>]"

text \<open>The static inline functions under \<open>#else\<close>, in the order of the header.\<close>

definition stub_prototypes :: "prototype list" where
  "stub_prototypes =
    [\<lparr>storage_class = Static_inline, ret_type = TU32,
        fn_name = ''sde_hdmi_get_num_of_displays'', params = []\<rparr>,
     \<lparr>storage_class = Static_inline, ret_type = TInt,
        fn_name = ''sde_hdmi_get_displays'',
        params = [(TPtr (TPtr TVoid), ''display_array''), (TU32, ''max_display_count'')]\<rparr>,
     \<lparr>storage_class = Static_inline, ret_type = TInt,
        fn_name = ''sde_hdmi_connector_pre_deinit'',
        params = [(TPtr (TStruct ''drm_connector''), ''connector''),
                  (TPtr TVoid, ''display'')]\<rparr>,
     \<lparr>storage_class = Static_inline, ret_type = TInt,
        fn_name = ''sde_hdmi_connector_post_init'',
        params = [(TPtr (TStruct ''drm_connector''), ''connector''),
                  (TPtr TVoid, ''info''), (TPtr TVoid, ''display'')]\<rparr>,
     \<lparr>storage_class = Static_inline, ret_type = TEnum ''drm_connector_status'',
        fn_name = ''sde_hdmi_connector_detect'',
        params = [(TPtr (TStruct ''drm_connector''), ''connector''),
                  (TBool, ''force''), (TPtr TVoid, ''display'')]\<rparr>,
     \<lparr>storage_class = Static_inline, ret_type = TInt,
        fn_name = ''sde_hdmi_connector_get_modes'',
        params = [(TPtr (TStruct ''drm_connector''), ''connector''),
                  (TPtr TVoid, ''display'')]\<rparr>,
     \<lparr>storage_class = Static_inline, ret_type = TEnum ''drm_mode_status'',
        fn_name = ''sde_hdmi_mode_valid'',
        params = [(TPtr (TStruct ''drm_connector''), ''connector''),
                  (TPtr (TStruct ''drm_display_mode''), ''mode''),
                  (TPtr TVoid, ''display'')]\<rparr>,
     \<lparr>storage_class = Static_inline, ret_type = TInt,
        fn_name = ''sde_hdmi_dev_init'',
        params = [(TPtr (TStruct ''sde_hdmi''), ''display'')]\<rparr>,
     \<lparr>storage_class = Static_inline, ret_type = TInt,
        fn_name = ''sde_hdmi_dev_deinit'',
        params = [(TPtr (TStruct ''sde_hdmi''), ''display'')]\<rparr>,
     \<lparr>storage_class = Static_inline, ret_type = TInt,
        fn_name = ''sde_hdmi_drm_init'',
        params = [(TPtr (TStruct ''sde_hdmi''), ''display''),
                  (TPtr (TStruct ''drm_encoder''), ''enc'')]\<rparr>,
     \<lparr>storage_class = Static_inline, ret_type = TInt,
        fn_name = ''sde_hdmi_drm_deinit'',
        params = [(TPtr (TStruct ''sde_hdmi''), ''display'')]\<rparr>,
     \<lparr>storage_class = Static_inline, ret_type = TInt,
        fn_name = ''sde_hdmi_get_info'',
        params = [(TPtr (TStruct ''msm_display_info''), ''info''),
                  (TPtr TVoid, ''display'')]\<rparr>]"

text \<open>What a caller sees of a declaration: name, parameter types and result type.\<close>

definition signature :: "prototype \<Rightarrow> string \<times> ctype list \<times> ctype" where
  "signature p = (fn_name p, map fst (params p), ret_type p)"

subsection \<open>The members of the structures\<close>

text \<open>
  The member declarations of \<open>struct sde_hdmi_ctrl\<close> and of \<open>struct sde_hdmi\<close> as
  data, in the order of the header: the declared type of each member and its name. The
  records above hold every pointer as an address; here the type pointed to is kept.
\<close>

type_synonym member = "ctype \<times> string"

definition sde_hdmi_ctrl_members :: "member list" where
  "sde_hdmi_ctrl_members =
    [(TPtr (TStruct ''hdmi''), ''ctrl''),
     (TPtr (TStruct ''device_node''), ''ctrl_of_node''),
     (TU32, ''hdmi_ctrl_idx'')]"

definition sde_hdmi_members :: "member list" where
  "sde_hdmi_members =
    [(TPtr (TStruct ''platform_device''), ''pdev''),
     (TPtr (TStruct ''drm_device''), ''drm_dev''),
     (TPtr (TConst TChar), ''name''),
     (TPtr (TConst TChar), ''display_type''),
     (TStruct ''list_head'', ''list''),
     (TStruct ''mutex'', ''display_lock''),
     (TStruct ''sde_hdmi_ctrl'', ''ctrl''),
     (TBool, ''non_pluggable''),
     (TU32, ''num_of_modes''),
     (TStruct ''list_head'', ''mode_list''),
     (TBool, ''connected''),
     (TBool, ''is_tpg_enabled''),
     (TStruct ''work_struct'', ''hpd_work''),
     (TPtr (TStruct ''dentry''), ''root'')]"

text \<open>The declared type of the member of a given name, if there is one.\<close>

definition member_type :: "member list \<Rightarrow> string \<Rightarrow> ctype option" where
  "member_type ms n = map_of (map (\<lambda>m. (snd m, fst m)) ms) n"

text \<open>
  Whether a type mentions the structure of a given name: as the type itself, or behind
  pointers and qualifiers.
\<close>

fun mentions :: "string \<Rightarrow> ctype \<Rightarrow> bool" where
  "mentions s (TStruct n) = (n = s)"
| "mentions s (TPtr t) = mentions s t"
| "mentions s (TConst t) = mentions s t"
| "mentions s TVoid = False"
| "mentions s TChar = False"
| "mentions s TInt = False"
| "mentions s TU32 = False"
| "mentions s TBool = False"
| "mentions s (TEnum n) = False"

subsection \<open>Values for the examples\<close>

text \<open>
  The two configurations, and a memory with a connected, pluggable display at address
  16, an array of two null pointers at address 32 and one foreign object at address 8.
  The embedded kernel structures and the foreign objects carry no data here.
\<close>

definition cfg_disabled :: config where
  "cfg_disabled = \<lparr>CONFIG_DRM_SDE_HDMI = False\<rparr>"

definition cfg_enabled :: config where
  "cfg_enabled = \<lparr>CONFIG_DRM_SDE_HDMI = True\<rparr>"

definition example_display :: "(unit, unit, unit) sde_hdmi" where
  "example_display =
     \<lparr>pdev = 64, drm_dev = 72, name = Some ''hdmi0'', display_type = Some ''primary'',
      list = List_head (), display_lock = Mutex (),
      ctrl = \<lparr>sde_hdmi_ctrl.ctrl = 80, ctrl_of_node = 88, hdmi_ctrl_idx = 0\<rparr>,
      non_pluggable = False, num_of_modes = 3, mode_list = List_head (),
      connected = True,
      is_tpg_enabled = False, hpd_work = Work_struct (), root = NULL\<rparr>"

definition example_mem :: "(unit, unit, unit, unit) kmem" where
  "example_mem =
     \<lparr>hdmi_objs = [16 \<mapsto> example_display],
      ptr_arrays = [32 \<mapsto> [NULL, NULL]],
      kobjs = [8 \<mapsto> ()]\<rparr>"

text \<open>
  External functions for the examples (they are not the driver's): every one of them
  returns a value that the inline function of the same name does not return, detection
  reads the \<open>connected\<close> field, and \<open>ext_get_displays\<close> stores the display's address
  in the array.
\<close>

definition example_ext :: "(unit, unit, unit, unit) kmem sde_hdmi_ext" where
  "example_ext =
     \<lparr>ext_get_num_of_displays = (\<lambda>m. (1, m)),
      ext_get_displays = (\<lambda>display_array max_display_count m.
         (1, m\<lparr>ptr_arrays := (ptr_arrays m)(display_array \<mapsto> [16])\<rparr>)),
      ext_connector_pre_deinit = (\<lambda>connector display m. (- 22, m)),
      ext_connector_post_init = (\<lambda>connector info display m. (- 22, m)),
      ext_connector_detect = (\<lambda>connector force display m.
         (case hdmi_objs m display of
            None \<Rightarrow> connector_status_unknown
          | Some h \<Rightarrow> if connected h then connector_status_connected
                      else connector_status_unknown, m)),
      ext_connector_get_modes = (\<lambda>connector display m. (3, m)),
      ext_mode_valid = (\<lambda>connector mode display m. (MODE_BAD, m)),
      ext_dev_init = (\<lambda>display m. (- 22, m)),
      ext_dev_deinit = (\<lambda>display m. (- 22, m)),
      ext_drm_init = (\<lambda>display enc m. (- 22, m)),
      ext_drm_deinit = (\<lambda>display m. (- 22, m)),
      ext_get_info = (\<lambda>info display m. (- 22, m\<lparr>kobjs := (kobjs m)(info := None)\<rparr>))\<rparr>"

section \<open>Results of the inline functions\<close>

text \<open>
  C1. With \<open>CONFIG_DRM_SDE_HDMI\<close> unset, \<open>sde_hdmi_connector_detect\<close> returns
  \<open>connector_status_disconnected\<close> for every connector, every value of \<open>force\<close>,
  every display handle and every memory, whatever the \<open>connected\<close> field of the display
  the handle points to.
\<close>

theorem connector_detect_disconnected:
  assumes "\<not> CONFIG_DRM_SDE_HDMI cfg"
  shows "fst (sde_hdmi_connector_detect cfg ext connector force display m)
           = connector_status_disconnected"
  using assms by (simp add: sde_hdmi_connector_detect_def)

text \<open>
  The display at address 16 of the example memory is connected and detection is forced;
  the result is still \<open>connector_status_disconnected\<close>.
\<close>

theorem connector_detect_disconnected_witness:
  "\<not> CONFIG_DRM_SDE_HDMI cfg_disabled
   \<and> map_option connected (hdmi_objs example_mem 16) = Some True
   \<and> fst (sde_hdmi_connector_detect cfg_disabled example_ext 8 True 16 example_mem)
       = connector_status_disconnected"
  using connector_detect_disconnected [of cfg_disabled example_ext 8 True 16 example_mem]
  by (simp add: cfg_disabled_def example_mem_def example_display_def)

text \<open>
  C2. With \<open>CONFIG_DRM_SDE_HDMI\<close> unset, \<open>sde_hdmi_mode_valid\<close> returns \<open>MODE_OK\<close>
  for every connector, every mode and every display handle: every mode is reported
  valid.
\<close>

theorem mode_valid_ok:
  assumes "\<not> CONFIG_DRM_SDE_HDMI cfg"
  shows "fst (sde_hdmi_mode_valid cfg ext connector mode display m) = MODE_OK"
  using assms by (simp add: sde_hdmi_mode_valid_def)

theorem mode_valid_ok_witness:
  "\<not> CONFIG_DRM_SDE_HDMI cfg_disabled
   \<and> fst (sde_hdmi_mode_valid cfg_disabled example_ext 8 NULL 16 example_mem) = MODE_OK"
  using mode_valid_ok [of cfg_disabled example_ext 8 NULL 16 example_mem]
  by (simp add: cfg_disabled_def)

text \<open>
  C3. With \<open>CONFIG_DRM_SDE_HDMI\<close> unset, each of the nine entry points whose result
  is an \<open>int\<close> returns 0 for every input. The three other entry points report no error
  either: the count is 0, the connector status is "disconnected" and the mode status
  is "OK".
\<close>

theorem int_stubs_return_zero:
  assumes "\<not> CONFIG_DRM_SDE_HDMI cfg"
  shows "fst (sde_hdmi_get_displays cfg ext display_array max_display_count m) = 0
       \<and> fst (sde_hdmi_connector_pre_deinit cfg ext connector display m) = 0
       \<and> fst (sde_hdmi_connector_post_init cfg ext connector info display m) = 0
       \<and> fst (sde_hdmi_connector_get_modes cfg ext connector display m) = 0
       \<and> fst (sde_hdmi_dev_init cfg ext display m) = 0
       \<and> fst (sde_hdmi_dev_deinit cfg ext display m) = 0
       \<and> fst (sde_hdmi_drm_init cfg ext display enc m) = 0
       \<and> fst (sde_hdmi_drm_deinit cfg ext display m) = 0
       \<and> fst (sde_hdmi_get_info cfg ext info display m) = 0
       \<and> fst (sde_hdmi_get_num_of_displays cfg ext m) = 0
       \<and> fst (sde_hdmi_connector_detect cfg ext connector force display m)
           = connector_status_disconnected
       \<and> fst (sde_hdmi_mode_valid cfg ext connector mode display m) = MODE_OK"
  using assms by (simp add: entry_point_defs)

theorem int_stubs_return_zero_witness:
  "\<not> CONFIG_DRM_SDE_HDMI cfg_disabled
   \<and> sint (fst (sde_hdmi_get_displays cfg_disabled example_ext 32 2 example_mem)) = 0
   \<and> sint (fst (sde_hdmi_connector_pre_deinit cfg_disabled example_ext 8 16 example_mem)) = 0
   \<and> sint (fst (sde_hdmi_connector_post_init cfg_disabled example_ext 8 8 16 example_mem)) = 0
   \<and> sint (fst (sde_hdmi_connector_get_modes cfg_disabled example_ext 8 16 example_mem)) = 0
   \<and> sint (fst (sde_hdmi_dev_init cfg_disabled example_ext 16 example_mem)) = 0
   \<and> sint (fst (sde_hdmi_dev_deinit cfg_disabled example_ext 16 example_mem)) = 0
   \<and> sint (fst (sde_hdmi_drm_init cfg_disabled example_ext 16 8 example_mem)) = 0
   \<and> sint (fst (sde_hdmi_drm_deinit cfg_disabled example_ext 16 example_mem)) = 0
   \<and> sint (fst (sde_hdmi_get_info cfg_disabled example_ext 8 16 example_mem)) = 0"
proof -
  have off: "\<not> CONFIG_DRM_SDE_HDMI cfg_disabled"
    by (simp add: cfg_disabled_def)
  show ?thesis
    using off
      int_stubs_return_zero [OF off, of example_ext 32 2 example_mem 8 16 8 8 True NULL]
    by simp
qed

text \<open>
  The results above do rest on the configuration: with the symbol set, the entry points
  are the external functions, and those of the example answer otherwise.
\<close>

lemma enabled_example_differs:
  "fst (sde_hdmi_connector_detect cfg_enabled example_ext 8 True 16 example_mem)
     = connector_status_connected
   \<and> fst (sde_hdmi_mode_valid cfg_enabled example_ext 8 NULL 16 example_mem) = MODE_BAD
   \<and> sint (fst (sde_hdmi_dev_init cfg_enabled example_ext 16 example_mem)) = - 22
   \<and> ptr_arrays (snd (sde_hdmi_get_displays cfg_enabled example_ext 32 2 example_mem)) 32
       = Some [16]"
  by (simp add: entry_point_defs cfg_enabled_def example_ext_def example_mem_def
      example_display_def)

section \<open>The two branches declare the same interface\<close>

text \<open>
  C4. The enabled branch declares twelve prototypes with distinct names, from
  \<open>sde_hdmi_get_num_of_displays\<close> to \<open>sde_hdmi_get_info\<close>. The other branch
  defines, in the same order, twelve static inline functions, and the function at each
  position has the name, the parameter types and the result type of the prototype at
  that position. So every prototype has a static inline function of the same name,
  parameter types and result type, and every entry point exists in both configurations.
\<close>

theorem stub_for_every_prototype:
  "length enabled_prototypes = 12
   \<and> distinct (map fn_name enabled_prototypes)
   \<and> fn_name (hd enabled_prototypes) = ''sde_hdmi_get_num_of_displays''
   \<and> fn_name (last enabled_prototypes) = ''sde_hdmi_get_info''
   \<and> map signature stub_prototypes = map signature enabled_prototypes
   \<and> map storage_class stub_prototypes = replicate 12 Static_inline
   \<and> set (map signature enabled_prototypes) \<subseteq> set (map signature stub_prototypes)"
proof -
  have same: "map signature stub_prototypes = map signature enabled_prototypes"
    by (simp add: stub_prototypes_def enabled_prototypes_def signature_def)
  have len: "length enabled_prototypes = 12"
    by (simp add: enabled_prototypes_def)
  have names: "distinct (map fn_name enabled_prototypes)"
    by (simp add: enabled_prototypes_def)
  have ends: "fn_name (hd enabled_prototypes) = ''sde_hdmi_get_num_of_displays''
      \<and> fn_name (last enabled_prototypes) = ''sde_hdmi_get_info''"
    by (simp add: enabled_prototypes_def)
  have inl: "map storage_class stub_prototypes = replicate 12 Static_inline"
    by (simp add: stub_prototypes_def numeral_eq_Suc)
  from same have "set (map signature enabled_prototypes) \<subseteq> set (map signature stub_prototypes)"
    by (simp only: subset_refl)
  with same len names ends inl show ?thesis
    by (simp only: simp_thms)
qed

section \<open>The inline functions write nothing\<close>

text \<open>
  C5. With \<open>CONFIG_DRM_SDE_HDMI\<close> unset, the memory after a call of any of the twelve
  entry points is the memory before it. In particular \<open>sde_hdmi_get_displays\<close> leaves
  the array \<open>display_array\<close> points to as it was, \<open>sde_hdmi_get_info\<close> leaves the
  object \<open>info\<close> points to as it was, and the \<open>struct sde_hdmi\<close> a display handle
  points to has the same fields after a call as before it.
\<close>

theorem stubs_leave_memory_unchanged:
  fixes m :: "('l, 'x, 'w, 'k) kmem"
  assumes "\<not> CONFIG_DRM_SDE_HDMI cfg"
  shows "snd (sde_hdmi_get_num_of_displays cfg ext m) = m
       \<and> snd (sde_hdmi_get_displays cfg ext display_array max_display_count m) = m
       \<and> snd (sde_hdmi_connector_pre_deinit cfg ext connector display m) = m
       \<and> snd (sde_hdmi_connector_post_init cfg ext connector info display m) = m
       \<and> snd (sde_hdmi_connector_detect cfg ext connector force display m) = m
       \<and> snd (sde_hdmi_connector_get_modes cfg ext connector display m) = m
       \<and> snd (sde_hdmi_mode_valid cfg ext connector mode display m) = m
       \<and> snd (sde_hdmi_dev_init cfg ext display m) = m
       \<and> snd (sde_hdmi_dev_deinit cfg ext display m) = m
       \<and> snd (sde_hdmi_drm_init cfg ext display enc m) = m
       \<and> snd (sde_hdmi_drm_deinit cfg ext display m) = m
       \<and> snd (sde_hdmi_get_info cfg ext info display m) = m
       \<and> ptr_arrays (snd (sde_hdmi_get_displays cfg ext display_array max_display_count m))
            display_array = ptr_arrays m display_array
       \<and> kobjs (snd (sde_hdmi_get_info cfg ext info display m)) info = kobjs m info
       \<and> hdmi_objs (snd (sde_hdmi_dev_init cfg ext display m)) display
            = hdmi_objs m display"
  using assms by (simp add: entry_point_defs)

text \<open>
  In the example memory: the array at 32, the object at 8 and the display at 16 are
  what they were, although the external functions of the example would have written
  to the first two.
\<close>

theorem stubs_leave_memory_unchanged_witness:
  "\<not> CONFIG_DRM_SDE_HDMI cfg_disabled
   \<and> snd (sde_hdmi_get_displays cfg_disabled example_ext 32 2 example_mem) = example_mem
   \<and> snd (sde_hdmi_get_info cfg_disabled example_ext 8 16 example_mem) = example_mem
   \<and> ptr_arrays (snd (sde_hdmi_get_displays cfg_disabled example_ext 32 2 example_mem)) 32
       = Some [NULL, NULL]
   \<and> kobjs (snd (sde_hdmi_get_info cfg_disabled example_ext 8 16 example_mem)) 8 = Some ()
   \<and> hdmi_objs (snd (sde_hdmi_dev_init cfg_disabled example_ext 16 example_mem)) 16
       = Some example_display"
proof -
  have off: "\<not> CONFIG_DRM_SDE_HDMI cfg_disabled"
    by (simp add: cfg_disabled_def)
  have mem: "ptr_arrays example_mem 32 = Some [NULL, NULL]
      \<and> kobjs example_mem 8 = Some () \<and> hdmi_objs example_mem 16 = Some example_display"
    by (simp add: example_mem_def)
  show ?thesis
    using off mem
      stubs_leave_memory_unchanged [OF off, of example_ext example_mem 32 2 8 16 8 True NULL 8]
    by simp
qed

section \<open>The results depend on no input\<close>

text \<open>
  C6. With \<open>CONFIG_DRM_SDE_HDMI\<close> unset, two calls of the same entry point return
  equal values, whatever the arguments and the memory of each call (the entry points
  are functions of their arguments and the memory, so one call has one result).
\<close>

theorem stubs_input_independent:
  assumes "\<not> CONFIG_DRM_SDE_HDMI cfg" and "\<not> CONFIG_DRM_SDE_HDMI cfg'"
  shows "fst (sde_hdmi_get_num_of_displays cfg ext m)
           = fst (sde_hdmi_get_num_of_displays cfg' ext' m')
       \<and> fst (sde_hdmi_get_displays cfg ext display_array max_display_count m)
           = fst (sde_hdmi_get_displays cfg' ext' display_array' max_display_count' m')
       \<and> fst (sde_hdmi_connector_pre_deinit cfg ext connector display m)
           = fst (sde_hdmi_connector_pre_deinit cfg' ext' connector' display' m')
       \<and> fst (sde_hdmi_connector_post_init cfg ext connector info display m)
           = fst (sde_hdmi_connector_post_init cfg' ext' connector' info' display' m')
       \<and> fst (sde_hdmi_connector_detect cfg ext connector force display m)
           = fst (sde_hdmi_connector_detect cfg' ext' connector' force' display' m')
       \<and> fst (sde_hdmi_connector_get_modes cfg ext connector display m)
           = fst (sde_hdmi_connector_get_modes cfg' ext' connector' display' m')
       \<and> fst (sde_hdmi_mode_valid cfg ext connector mode display m)
           = fst (sde_hdmi_mode_valid cfg' ext' connector' mode' display' m')
       \<and> fst (sde_hdmi_dev_init cfg ext display m)
           = fst (sde_hdmi_dev_init cfg' ext' display' m')
       \<and> fst (sde_hdmi_dev_deinit cfg ext display m)
           = fst (sde_hdmi_dev_deinit cfg' ext' display' m')
       \<and> fst (sde_hdmi_drm_init cfg ext display enc m)
           = fst (sde_hdmi_drm_init cfg' ext' display' enc' m')
       \<and> fst (sde_hdmi_drm_deinit cfg ext display m)
           = fst (sde_hdmi_drm_deinit cfg' ext' display' m')
       \<and> fst (sde_hdmi_get_info cfg ext info display m)
           = fst (sde_hdmi_get_info cfg' ext' info' display' m')"
  using assms by (simp add: entry_point_defs)

text \<open>
  Detection with \<open>force\<close> set on the connected display of the example memory, and
  detection with \<open>force\<close> clear on a null handle in the same memory without its
  displays, return the same status.
\<close>

theorem stubs_input_independent_witness:
  "\<not> CONFIG_DRM_SDE_HDMI cfg_disabled
   \<and> fst (sde_hdmi_connector_detect cfg_disabled example_ext 8 True 16 example_mem)
       = fst (sde_hdmi_connector_detect cfg_disabled example_ext NULL False NULL
                (example_mem\<lparr>hdmi_objs := Map.empty\<rparr>))"
proof -
  have off: "\<not> CONFIG_DRM_SDE_HDMI cfg_disabled"
    by (simp add: cfg_disabled_def)
  show ?thesis
    using off
      stubs_input_independent [OF off off,
        of example_ext example_mem example_ext "example_mem\<lparr>hdmi_objs := Map.empty\<rparr>"
           32 2 32 2 8 16 NULL NULL 8 8 True False NULL NULL 8 8]
    by simp
qed

section \<open>The structures\<close>

text \<open>
  C7. A \<open>struct sde_hdmi_info\<close> is its six fields and nothing else: the string
  \<open>display_type\<close>, the booleans \<open>is_hot_pluggable\<close>, \<open>is_connected\<close> and
  \<open>is_edid_supported\<close>, and the unsigned 32-bit numbers \<open>width_mm\<close> and
  \<open>height_mm\<close>.
\<close>

theorem sde_hdmi_info_fields:
  fixes r :: sde_hdmi_info
  shows "r = \<lparr>sde_hdmi_info.display_type = (sde_hdmi_info.display_type r :: string option),
              is_hot_pluggable = (is_hot_pluggable r :: bool),
              is_connected = (is_connected r :: bool),
              is_edid_supported = (is_edid_supported r :: bool),
              width_mm = (width_mm r :: 32 word),
              height_mm = (height_mm r :: 32 word)\<rparr>"
  by simp

text \<open>
  C8. A \<open>struct sde_hdmi_ctrl\<close> is its three members and nothing else: \<open>ctrl\<close>, a
  pointer to the controller device (\<open>struct hdmi\<close>); \<open>ctrl_of_node\<close>, a pointer to
  a device-tree node (\<open>struct device_node\<close>); and the unsigned 32-bit
  \<open>hdmi_ctrl_idx\<close>. A \<open>struct sde_hdmi\<close> has fourteen members with distinct
  names. Exactly one of them mentions \<open>struct sde_hdmi_ctrl\<close>: the member \<open>ctrl\<close>,
  which holds the structure by value and not through a pointer. As values, a
  \<open>struct sde_hdmi_ctrl\<close> is determined by its three fields and a
  \<open>struct sde_hdmi\<close> by its fourteen, whose \<open>ctrl\<close> is a \<open>struct sde_hdmi_ctrl\<close>
  while the embedded list heads, mutex and work item are of other types.
\<close>

theorem sde_hdmi_ctrl_fields:
  fixes c :: sde_hdmi_ctrl and h :: "('l, 'x, 'w) sde_hdmi"
  shows "c = \<lparr>sde_hdmi_ctrl.ctrl = (sde_hdmi_ctrl.ctrl c :: addr),
              ctrl_of_node = (ctrl_of_node c :: addr),
              hdmi_ctrl_idx = (hdmi_ctrl_idx c :: 32 word)\<rparr>
       \<and> h = \<lparr>pdev = (pdev h :: addr), drm_dev = (drm_dev h :: addr),
               name = (name h :: string option),
               display_type = (sde_hdmi.display_type h :: string option),
               list = (list h :: 'l list_head),
               display_lock = (display_lock h :: 'x mutex),
               ctrl = (sde_hdmi.ctrl h :: sde_hdmi_ctrl),
               non_pluggable = (non_pluggable h :: bool),
               num_of_modes = (num_of_modes h :: 32 word),
               mode_list = (mode_list h :: 'l list_head),
               connected = (connected h :: bool),
               is_tpg_enabled = (is_tpg_enabled h :: bool),
               hpd_work = (hpd_work h :: 'w work_struct), root = (root h :: addr)\<rparr>
       \<and> map snd sde_hdmi_ctrl_members = [''ctrl'', ''ctrl_of_node'', ''hdmi_ctrl_idx'']
       \<and> member_type sde_hdmi_ctrl_members ''ctrl'' = Some (TPtr (TStruct ''hdmi''))
       \<and> member_type sde_hdmi_ctrl_members ''ctrl_of_node''
            = Some (TPtr (TStruct ''device_node''))
       \<and> member_type sde_hdmi_ctrl_members ''hdmi_ctrl_idx'' = Some TU32
       \<and> length sde_hdmi_members = 14
       \<and> distinct (map snd sde_hdmi_members)
       \<and> filter (\<lambda>m. mentions ''sde_hdmi_ctrl'' (fst m)) sde_hdmi_members
            = [(TStruct ''sde_hdmi_ctrl'', ''ctrl'')]
       \<and> length (filter (\<lambda>m. fst m = TStruct ''sde_hdmi_ctrl'') sde_hdmi_members) = 1
       \<and> member_type sde_hdmi_members ''ctrl'' = Some (TStruct ''sde_hdmi_ctrl'')"
proof -
  have rec_c: "c = \<lparr>sde_hdmi_ctrl.ctrl = sde_hdmi_ctrl.ctrl c,
      ctrl_of_node = ctrl_of_node c, hdmi_ctrl_idx = hdmi_ctrl_idx c\<rparr>"
    by simp
  have rec_h: "h = \<lparr>pdev = pdev h, drm_dev = drm_dev h, name = name h,
      display_type = sde_hdmi.display_type h, list = list h,
      display_lock = display_lock h, ctrl = sde_hdmi.ctrl h,
      non_pluggable = non_pluggable h, num_of_modes = num_of_modes h,
      mode_list = mode_list h, connected = connected h,
      is_tpg_enabled = is_tpg_enabled h, hpd_work = hpd_work h, root = root h\<rparr>"
    by simp
  have names_c: "map snd sde_hdmi_ctrl_members
      = [''ctrl'', ''ctrl_of_node'', ''hdmi_ctrl_idx'']"
    by (simp add: sde_hdmi_ctrl_members_def)
  have types_c: "member_type sde_hdmi_ctrl_members ''ctrl'' = Some (TPtr (TStruct ''hdmi''))"
    "member_type sde_hdmi_ctrl_members ''ctrl_of_node''
       = Some (TPtr (TStruct ''device_node''))"
    "member_type sde_hdmi_ctrl_members ''hdmi_ctrl_idx'' = Some TU32"
    by (simp_all add: member_type_def sde_hdmi_ctrl_members_def)
  have len_h: "length sde_hdmi_members = 14"
    by (simp add: sde_hdmi_members_def)
  have names_h: "distinct (map snd sde_hdmi_members)"
    by (simp add: sde_hdmi_members_def)
  have one: "filter (\<lambda>m. mentions ''sde_hdmi_ctrl'' (fst m)) sde_hdmi_members
      = [(TStruct ''sde_hdmi_ctrl'', ''ctrl'')]"
    by (simp add: sde_hdmi_members_def)
  have count: "length (filter (\<lambda>m. fst m = TStruct ''sde_hdmi_ctrl'') sde_hdmi_members) = 1"
    by (simp add: sde_hdmi_members_def)
  have type_h: "member_type sde_hdmi_members ''ctrl'' = Some (TStruct ''sde_hdmi_ctrl'')"
    by (simp add: member_type_def sde_hdmi_members_def)
  from rec_c rec_h names_c types_c len_h names_h one count type_h show ?thesis
    by (intro conjI)
qed

section \<open>The number of displays\<close>

text \<open>
  C9. With \<open>CONFIG_DRM_SDE_HDMI\<close> unset, the number of available displays that
  \<open>sde_hdmi_get_displays\<close> returns (an \<open>int\<close>) is the number of displays that
  \<open>sde_hdmi_get_num_of_displays\<close> returns (a \<open>u32\<close>), for every array and every
  maximum: both are 0.
\<close>

theorem display_count_consistent:
  assumes "\<not> CONFIG_DRM_SDE_HDMI cfg"
  shows "sint (fst (sde_hdmi_get_displays cfg ext display_array max_display_count m))
           = uint (fst (sde_hdmi_get_num_of_displays cfg ext m'))
       \<and> sint (fst (sde_hdmi_get_displays cfg ext display_array max_display_count m)) = 0
       \<and> uint (fst (sde_hdmi_get_num_of_displays cfg ext m')) = 0"
  using assms
  by (simp add: sde_hdmi_get_displays_def sde_hdmi_get_num_of_displays_def)

theorem display_count_consistent_witness:
  "\<not> CONFIG_DRM_SDE_HDMI cfg_disabled
   \<and> sint (fst (sde_hdmi_get_displays cfg_disabled example_ext 32 2 example_mem))
       = uint (fst (sde_hdmi_get_num_of_displays cfg_disabled example_ext example_mem))"
proof -
  have off: "\<not> CONFIG_DRM_SDE_HDMI cfg_disabled"
    by (simp add: cfg_disabled_def)
  show ?thesis
    using off
      display_count_consistent [OF off, of example_ext 32 2 example_mem example_mem]
    by simp
qed

text \<open>
  C10. With \<open>CONFIG_DRM_SDE_HDMI\<close> unset, the number that \<open>sde_hdmi_get_displays\<close>
  returns is at most \<open>max_display_count\<close>, for every \<open>u32\<close> value of it, 0
  included: as numbers, and as C compares an \<open>int\<close> with a \<open>u32\<close> (both unsigned).
\<close>

theorem get_displays_within_max:
  assumes "\<not> CONFIG_DRM_SDE_HDMI cfg"
  shows "sint (fst (sde_hdmi_get_displays cfg ext display_array max_display_count m))
           \<le> uint max_display_count
       \<and> fst (sde_hdmi_get_displays cfg ext display_array max_display_count m)
           \<le> max_display_count"
  using assms by (simp add: sde_hdmi_get_displays_def)

theorem get_displays_within_max_witness:
  "\<not> CONFIG_DRM_SDE_HDMI cfg_disabled
   \<and> sint (fst (sde_hdmi_get_displays cfg_disabled example_ext 32 0 example_mem))
       \<le> uint (0 :: u32)"
proof -
  have off: "\<not> CONFIG_DRM_SDE_HDMI cfg_disabled"
    by (simp add: cfg_disabled_def)
  show ?thesis
    using off get_displays_within_max [OF off, of example_ext 32 0 example_mem]
    by simp
qed

end
